theory Spec2Isabelle
  imports Complex_Main "HOL-Library.Log_Nat"
begin

section \<open>Trial parameters\<close>

text \<open>
  The two plugins, \<^verbatim>\<open>bar-choice\<close> (assignment-inferenceAC.js) and
  \<^verbatim>\<open>bar-image-choice\<close> (its image-overlay sibling), receive a \<^verbatim>\<open>trial\<close> object.
  A parameter of type KEYS is an array of key names or one of the two strings
  \<^verbatim>\<open>"ALL_KEYS"\<close> and \<^verbatim>\<open>"NO_KEYS"\<close>.
\<close>

datatype choices = Keys "string list" | ALL_KEYS | NO_KEYS

text \<open>
  \<^verbatim>\<open>trial.choices != "NO_KEYS"\<close> is JavaScript's loose comparison: an array operand is
  converted to a string first, by joining its elements with commas.
\<close>

fun array_join :: "string list \<Rightarrow> string" where
  "array_join [] = []"
| "array_join [k] = k"
| "array_join (k # ks) = k @ '','' @ array_join ks"

fun choices_toString :: "choices \<Rightarrow> string" where
  "choices_toString (Keys ks) = array_join ks"
| "choices_toString ALL_KEYS = ''ALL_KEYS''"
| "choices_toString NO_KEYS = ''NO_KEYS''"

definition loose_eq :: "choices \<Rightarrow> string \<Rightarrow> bool" where
  "loose_eq c s = (choices_toString c = s)"

text \<open>
  \<^verbatim>\<open>trial.choices[i]\<close>: an element of the array, a one-character string when
  \<^verbatim>\<open>choices\<close> is itself a string, and \<^verbatim>\<open>undefined\<close> (here \<open>None\<close>) out of range.
\<close>

definition string_at :: "string \<Rightarrow> nat \<Rightarrow> string option" where
  "string_at s i = (if i < length s then Some [s ! i] else None)"

fun choices_at :: "choices \<Rightarrow> nat \<Rightarrow> string option" where
  "choices_at (Keys ks) i = (if i < length ks then Some (ks ! i) else None)"
| "choices_at ALL_KEYS i = string_at ''ALL_KEYS'' i"
| "choices_at NO_KEYS i = string_at ''NO_KEYS'' i"

text \<open>
  \<^verbatim>\<open>response.key === trial.choices[i]\<close>: the left operand is \<^verbatim>\<open>null\<close> or a string, the
  right one \<^verbatim>\<open>undefined\<close> or a string, and \<^verbatim>\<open>null\<close> is not \<^verbatim>\<open>undefined\<close>.
\<close>

definition strict_eq :: "string option \<Rightarrow> string option \<Rightarrow> bool" where
  "strict_eq token choice = (case token of None \<Rightarrow> False | Some k \<Rightarrow> choice = Some k)"

text \<open>
  The parameters of both plugins in one record: each plugin reads the parameters it
  declares (the colours for \<^verbatim>\<open>bar-choice\<close>, the images for \<^verbatim>\<open>bar-image-choice\<close>) and
  ignores the others. A parameter whose default is \<^verbatim>\<open>null\<close> is an option. A height range
  is the pair of the two array entries the code reads, \<^verbatim>\<open>[0]\<close> and \<^verbatim>\<open>[1]\<close>.
\<close>

record trial =
  prompt :: "string option"
  left_height_range :: "int \<times> int"
  right_height_range :: "int \<times> int"
  jitter :: int
  left_color :: string
  right_color :: string
  left_image :: "string option"
  right_image :: "string option"
  bg_color :: string
  choices :: choices
  correct_side :: "string option"
  trial_duration :: "int option"
  response_ends_trial :: bool

section \<open>Random sampling\<close>

text \<open>
  The four values that \<^verbatim>\<open>Math.random()\<close> yields during one call of \<^verbatim>\<open>trial\<close>, in the
  order of the calls: inside the two \<^verbatim>\<open>randomInt\<close> calls, then for the two jitters.
  Each lies in \<open>[0, 1)\<close>.
\<close>

record draws =
  draw_left_height :: real
  draw_right_height :: real
  draw_left_jitter :: real
  draw_right_jitter :: real



text \<open>
  Modelled from the spec: \<^verbatim>\<open>randomInt(min, max)\<close> of the host runtime, whose code is not
  among the sources, is ``inclusive uniform sampling'' of an integer: the unit draw is
  scaled to the \<open>max - min + 1\<close> integers of the interval. This is the value of a call
  that returns; the failure of a call on an empty interval is modelled further below.
\<close>

definition randomInt :: "int \<Rightarrow> int \<Rightarrow> real \<Rightarrow> int" where
  "randomInt lower upper u = lower + \<lfloor>u * real_of_int (upper - lower + 1)\<rfloor>"

text \<open>
  JavaScript numbers are IEEE 754 doubles, and every arithmetic operation of the source
  yields the double nearest to its exact result, a tie going to the even significand.
  \<open>to_double x\<close> is that double for the real \<open>x\<close>: \<open>x\<close> rounded to a multiple of the unit
  in the last place of its binade (significands of 53 bits, gradual underflow below
  \<open>2 ^ - 1022\<close>). Overflow to \<^verbatim>\<open>Infinity\<close>, at magnitudes from \<open>2 ^ 1024\<close>, is not
  modelled.
\<close>

definition round_half_even :: "real \<Rightarrow> int" where
  "round_half_even r =
     (if r - real_of_int \<lfloor>r\<rfloor> < 1 / 2 then \<lfloor>r\<rfloor>
      else if 1 / 2 < r - real_of_int \<lfloor>r\<rfloor> then \<lfloor>r\<rfloor> + 1
      else if even \<lfloor>r\<rfloor> then \<lfloor>r\<rfloor> else \<lfloor>r\<rfloor> + 1)"

definition ulp :: "real \<Rightarrow> real" where
  "ulp x = 2 powi (max \<lfloor>log 2 \<bar>x\<bar>\<rfloor> (- 1022) - 52)"

definition to_double :: "real \<Rightarrow> real" where
  "to_double x = (if x = 0 then 0 else real_of_int (round_half_even (x / ulp x)) * ulp x)"

text \<open>
  \<^verbatim>\<open>a + b\<close> for two integer-valued doubles: the double nearest to the sum, which is
  an integer again.
\<close>

definition double_add :: "int \<Rightarrow> int \<Rightarrow> int" where
  "double_add a b = \<lfloor>to_double (real_of_int a + real_of_int b)\<rfloor>"


text \<open>
  \<^verbatim>\<open>Math.round\<close>: the nearest integer, a tie going up; its result is exact.
\<close>

definition Math_round :: "real \<Rightarrow> int" where
  "Math_round x = \<lfloor>x + 1 / 2\<rfloor>"

text \<open>The constants that \<^verbatim>\<open>trial\<close> computes first and that its closures capture.\<close>

record stimulus =
  left_height :: int
  right_height :: int
  left_jitter :: int
  right_jitter :: int
  final_left :: int
  final_right :: int

section \<open>Responses and result records\<close>

text \<open>
  \<^verbatim>\<open>response\<close> starts as \<^verbatim>\<open>{rt: null, key: null}\<close> and is replaced by the object the
  keyboard listener passes to its callback.
\<close>

record response =
  rt :: "int option"
  key :: "string option"

text \<open>
  \<^verbatim>\<open>trial_data\<close>: the fields both plugins report, extended by the colours in one plugin
  and by the images in the other. (\<^verbatim>\<open>bar-choice\<close> writes \<^verbatim>\<open>prompt\<close> twice, with the same
  value.)
\<close>

record trial_data =
  rt :: "int option"
  key :: "string option"
  prompt :: "string option"
  chosen_side :: "string option"
  correct_side :: "string option"
  accuracy :: "nat option"
  final_left :: int
  final_right :: int
  left_jitter :: int
  right_jitter :: int

record bar_data = trial_data +
  left_color :: string
  right_color :: string

record img_data = trial_data +
  left_image :: "string option"
  right_image :: "string option"

section \<open>The host runtime\<close>

text \<open>
  What \<^verbatim>\<open>display_element.innerHTML\<close> holds: nothing, or one of the two templates,
  represented by the values interpolated into it.
\<close>

datatype html =
  Blank
| BarHtml string string int string int string
| ImageHtml string string "string option" int "string option" int

datatype listener = Listener

datatype 'd host_call =
  GetKeyboardResponse choices
| SetTimeout int
| ClearAllTimeouts
| CancelKeyboardResponse listener
| FinishTrial 'd

text \<open>
  The mutable state of one trial: the variables \<^verbatim>\<open>response\<close> and \<^verbatim>\<open>keyboardListener\<close>
  of the closure (\<open>None\<close> is \<^verbatim>\<open>undefined\<close>), the display, and the state of the host:
  whether the keyboard listener is registered, whether the timeout is pending, and the
  calls made so far, in order, to the listener and timer services of
  \<^verbatim>\<open>jsPsych.pluginAPI\<close> and to \<^verbatim>\<open>jsPsych.finishTrial\<close>. The two calls of
  \<^verbatim>\<open>randomInt\<close> at the start are not part of this log.
\<close>

record 'd session =
  response :: response
  keyboardListener :: "listener option"
  innerHTML :: html
  listening :: bool
  timeout_pending :: bool
  calls :: "'d host_call list"

text \<open>
  Modelled from the spec: the host runtime adapter (\<^verbatim>\<open>jsPsych.pluginAPI\<close> and
  \<^verbatim>\<open>jsPsych.finishTrial\<close>), whose code is not among the sources. A keyboard listener
  invokes its callback on the first matching key press and \<^verbatim>\<open>cancel\<close> stops it; a
  timeout invokes its callback once unless it is cancelled first; cancelling what is
  not active is not an error; \<^verbatim>\<open>finishTrial\<close> is the sink of result records.
\<close>

definition getKeyboardResponse :: "choices \<Rightarrow> 'd session \<Rightarrow> listener \<times> 'd session" where
  "getKeyboardResponse valid_responses s =
     (Listener, s\<lparr>listening := True, calls := calls s @ [GetKeyboardResponse valid_responses]\<rparr>)"

definition cancelKeyboardResponse :: "listener \<Rightarrow> 'd session \<Rightarrow> 'd session" where
  "cancelKeyboardResponse l s =
     s\<lparr>listening := False, calls := calls s @ [CancelKeyboardResponse l]\<rparr>"

definition setTimeout :: "int \<Rightarrow> 'd session \<Rightarrow> 'd session" where
  "setTimeout ms s = s\<lparr>timeout_pending := True, calls := calls s @ [SetTimeout ms]\<rparr>"

definition clearAllTimeouts :: "'d session \<Rightarrow> 'd session" where
  "clearAllTimeouts s = s\<lparr>timeout_pending := False, calls := calls s @ [ClearAllTimeouts]\<rparr>"

definition finishTrial :: "'d \<Rightarrow> 'd session \<Rightarrow> 'd session" where
  "finishTrial d s = s\<lparr>calls := calls s @ [FinishTrial d]\<rparr>"

text \<open>The result records handed to \<^verbatim>\<open>finishTrial\<close>, in order.\<close>

fun finished :: "'d host_call list \<Rightarrow> 'd list" where
  "finished [] = []"
| "finished (FinishTrial d # cs) = d # finished cs"
| "finished (c # cs) = finished cs"

definition reported :: "'d session \<Rightarrow> 'd list" where
  "reported s = finished (calls s)"

text \<open>
  Modelled from the spec: which key presses a listener registered with
  \<^verbatim>\<open>valid_responses\<close> accepts (``first matching key press''); the host's code is not
  among the sources.
\<close>

fun valid_response :: "choices \<Rightarrow> string \<Rightarrow> bool" where
  "valid_response (Keys ks) k = (k \<in> set ks)"
| "valid_response ALL_KEYS k = True"
| "valid_response NO_KEYS k = False"

text \<open>
  Modelled from the spec: the host's event loop, whose code is not among the sources.
  Its events are a key press (the key and the reaction time in ms measured by the
  host) and the elapsing of the trial's timeout. The host runs a callback
  only while its listener or timer is still active; the keyboard listener is registered
  with \<^verbatim>\<open>persist: false\<close>, so it is removed when it accepts a key.
\<close>

datatype event = KeyDown string int | TimeoutElapsed

definition host_dispatch ::
  "(response \<Rightarrow> 'd session \<Rightarrow> 'd session) \<Rightarrow> ('d session \<Rightarrow> 'd session) \<Rightarrow> choices
     \<Rightarrow> 'd session \<Rightarrow> event \<Rightarrow> 'd session" where
  "host_dispatch callback_function on_timeout valid_responses s e =
     (case e of
        KeyDown k t \<Rightarrow>
          if listening s \<and> valid_response valid_responses k
          then callback_function \<lparr>response.rt = Some t, response.key = Some k\<rparr>
                 (s\<lparr>listening := False\<rparr>)
          else s
      | TimeoutElapsed \<Rightarrow>
          if timeout_pending s then on_timeout (s\<lparr>timeout_pending := False\<rparr>) else s)"

section \<open>The plugin \<^verbatim>\<open>bar-choice\<close>\<close>

definition bar_end_trial :: "trial \<Rightarrow> stimulus \<Rightarrow> bar_data session \<Rightarrow> bar_data session" where
  "bar_end_trial t st s =
     (let s1 = clearAllTimeouts s;
          s2 = (case keyboardListener s1 of
                  None \<Rightarrow> s1
                | Some l \<Rightarrow> cancelKeyboardResponse l s1);
          chosen = (if response.key (response s2) \<noteq> None
                    then (if strict_eq (response.key (response s2)) (choices_at (choices t) 0)
                          then Some ''left''
                          else if strict_eq (response.key (response s2)) (choices_at (choices t) 1)
                          then Some ''right''
                          else None)
                    else None);
          acc = (if trial.correct_side t \<noteq> None \<and> chosen \<noteq> None
                 then (if chosen = trial.correct_side t then Some 1 else Some 0)
                 else None);
          data = \<lparr>rt = response.rt (response s2),
                  key = response.key (response s2),
                  prompt = trial.prompt t,
                  chosen_side = chosen,
                  correct_side = trial.correct_side t,
                  accuracy = acc,
                  final_left = stimulus.final_left st,
                  final_right = stimulus.final_right st,
                  left_jitter = stimulus.left_jitter st,
                  right_jitter = stimulus.right_jitter st,
                  left_color = trial.left_color t,
                  right_color = trial.right_color t\<rparr>
      in finishTrial data (s2\<lparr>innerHTML := Blank\<rparr>))"

definition bar_after_response ::
  "trial \<Rightarrow> stimulus \<Rightarrow> response \<Rightarrow> bar_data session \<Rightarrow> bar_data session" where
  "bar_after_response t st info s =
     (let s1 = (if response.key (response s) = None then s\<lparr>response := info\<rparr> else s)
      in if response_ends_trial t then bar_end_trial t st s1 else s1)"

definition BarChoicePlugin_trial :: "trial \<Rightarrow> draws \<Rightarrow> stimulus \<times> bar_data session" where
  "BarChoicePlugin_trial t d =
     (let lh = randomInt (fst (left_height_range t)) (snd (left_height_range t))
                 (draw_left_height d);
          rh = randomInt (fst (right_height_range t)) (snd (right_height_range t))
                 (draw_right_height d);
          lj = Math_round (to_double (to_double (to_double (draw_left_jitter d * 2) - 1)
                 * real_of_int (jitter t)));
          rj = Math_round (to_double (to_double (to_double (draw_right_jitter d * 2) - 1)
                 * real_of_int (jitter t)));
          fl = double_add lh lj;
          fr = double_add rh rj;
          new_html = BarHtml (bg_color t) (case trial.prompt t of None \<Rightarrow> [] | Some p \<Rightarrow> p)
                       fl (trial.left_color t) fr (trial.right_color t);
          s0 = \<lparr>response = \<lparr>response.rt = None, response.key = None\<rparr>,
                keyboardListener = None, innerHTML = new_html,
                listening = False, timeout_pending = False, calls = []\<rparr>;
          s1 = (if \<not> loose_eq (choices t) ''NO_KEYS''
                then (case getKeyboardResponse (choices t) s0 of
                        (l, s') \<Rightarrow> s'\<lparr>keyboardListener := Some l\<rparr>)
                else s0);
          s2 = (case trial_duration t of None \<Rightarrow> s1 | Some ms \<Rightarrow> setTimeout ms s1)
      in (\<lparr>left_height = lh, right_height = rh,
           stimulus.left_jitter = lj, stimulus.right_jitter = rj,
           stimulus.final_left = fl, stimulus.final_right = fr\<rparr>, s2))"

text \<open>One trial of \<^verbatim>\<open>bar-choice\<close>: the start, then the host's events in order.\<close>

definition bar_run :: "trial \<Rightarrow> draws \<Rightarrow> event list \<Rightarrow> bar_data session" where
  "bar_run t d evs =
     (case BarChoicePlugin_trial t d of
        (st, s) \<Rightarrow>
          foldl (host_dispatch (bar_after_response t st) (bar_end_trial t st) (choices t)) s evs)"

section \<open>The plugin \<^verbatim>\<open>bar-image-choice\<close>\<close>

definition img_end_trial :: "trial \<Rightarrow> stimulus \<Rightarrow> img_data session \<Rightarrow> img_data session" where
  "img_end_trial t st s =
     (let s1 = clearAllTimeouts s;
          s2 = (case keyboardListener s1 of
                  None \<Rightarrow> s1
                | Some l \<Rightarrow> cancelKeyboardResponse l s1);
          chosen = (if response.key (response s2) \<noteq> None
                    then (if strict_eq (response.key (response s2)) (choices_at (choices t) 0)
                          then Some ''left''
                          else if strict_eq (response.key (response s2)) (choices_at (choices t) 1)
                          then Some ''right''
                          else None)
                    else None);
          acc = (if trial.correct_side t \<noteq> None \<and> chosen \<noteq> None
                 then (if chosen = trial.correct_side t then Some 1 else Some 0)
                 else None);
          data = \<lparr>rt = response.rt (response s2),
                  key = response.key (response s2),
                  prompt = trial.prompt t,
                  chosen_side = chosen,
                  correct_side = trial.correct_side t,
                  accuracy = acc,
                  final_left = stimulus.final_left st,
                  final_right = stimulus.final_right st,
                  left_jitter = stimulus.left_jitter st,
                  right_jitter = stimulus.right_jitter st,
                  left_image = trial.left_image t,
                  right_image = trial.right_image t\<rparr>
      in finishTrial data (s2\<lparr>innerHTML := Blank\<rparr>))"

definition img_after_response ::
  "trial \<Rightarrow> stimulus \<Rightarrow> response \<Rightarrow> img_data session \<Rightarrow> img_data session" where
  "img_after_response t st info s =
     (let s1 = (if response.key (response s) = None then s\<lparr>response := info\<rparr> else s)
      in if response_ends_trial t then img_end_trial t st s1 else s1)"

definition BarImageChoicePlugin_trial :: "trial \<Rightarrow> draws \<Rightarrow> stimulus \<times> img_data session" where
  "BarImageChoicePlugin_trial t d =
     (let lh = randomInt (fst (left_height_range t)) (snd (left_height_range t))
                 (draw_left_height d);
          rh = randomInt (fst (right_height_range t)) (snd (right_height_range t))
                 (draw_right_height d);
          lj = Math_round (to_double (to_double (to_double (draw_left_jitter d * 2) - 1)
                 * real_of_int (jitter t)));
          rj = Math_round (to_double (to_double (to_double (draw_right_jitter d * 2) - 1)
                 * real_of_int (jitter t)));
          fl = double_add lh lj;
          fr = double_add rh rj;
          html = ImageHtml (bg_color t) (case trial.prompt t of None \<Rightarrow> [] | Some p \<Rightarrow> p)
                   (trial.left_image t) fl (trial.right_image t) fr;
          s0 = \<lparr>response = \<lparr>response.rt = None, response.key = None\<rparr>,
                keyboardListener = None, innerHTML = html,
                listening = False, timeout_pending = False, calls = []\<rparr>;
          s1 = (if \<not> loose_eq (choices t) ''NO_KEYS''
                then (case getKeyboardResponse (choices t) s0 of
                        (l, s') \<Rightarrow> s'\<lparr>keyboardListener := Some l\<rparr>)
                else s0);
          s2 = (case trial_duration t of None \<Rightarrow> s1 | Some ms \<Rightarrow> setTimeout ms s1)
      in (\<lparr>left_height = lh, right_height = rh,
           stimulus.left_jitter = lj, stimulus.right_jitter = rj,
           stimulus.final_left = fl, stimulus.final_right = fr\<rparr>, s2))"

text \<open>One trial of \<^verbatim>\<open>bar-image-choice\<close>: the start, then the host's events in order.\<close>

definition img_run :: "trial \<Rightarrow> draws \<Rightarrow> event list \<Rightarrow> img_data session" where
  "img_run t d evs =
     (case BarImageChoicePlugin_trial t d of
        (st, s) \<Rightarrow>
          foldl (host_dispatch (img_after_response t st) (img_end_trial t st) (choices t)) s evs)"

section \<open>The start of a trial on a host that rejects an empty interval\<close>





section \<open>Notions used to state and prove the properties\<close>

text \<open>
  The first key press of an event sequence that the keyboard listener accepts, as a
  response object, and \<^verbatim>\<open>{rt: null, key: null}\<close> when there is none.
\<close>

fun first_valid :: "choices \<Rightarrow> event list \<Rightarrow> response" where
  "first_valid c [] = \<lparr>response.rt = None, response.key = None\<rparr>"
| "first_valid c (KeyDown k tm # es) =
     (if valid_response c k then \<lparr>response.rt = Some tm, response.key = Some k\<rparr>
      else first_valid c es)"
| "first_valid c (TimeoutElapsed # es) = first_valid c es"

text \<open>
  The response a trial has captured after the events \<open>evs\<close>: none when no listener was
  registered, the first accepted key press otherwise.
\<close>

definition captured :: "trial \<Rightarrow> event list \<Rightarrow> response" where
  "captured t evs =
     (if loose_eq (choices t) ''NO_KEYS'' then \<lparr>response.rt = None, response.key = None\<rparr>
      else first_valid (choices t) evs)"

text \<open>
  The events that resolve a trial: an accepted key press when a listener was registered
  and \<^verbatim>\<open>response_ends_trial\<close> is true, and the timeout when \<^verbatim>\<open>trial_duration\<close> is set.
\<close>

fun resolving :: "trial \<Rightarrow> event \<Rightarrow> bool" where
  "resolving t (KeyDown k tm) =
     (\<not> loose_eq (choices t) ''NO_KEYS'' \<and> valid_response (choices t) k \<and> response_ends_trial t)"
| "resolving t TimeoutElapsed = (trial_duration t \<noteq> None)"

text \<open>The events up to and including the first resolving one, if there is one.\<close>

fun until_resolved :: "trial \<Rightarrow> event list \<Rightarrow> event list option" where
  "until_resolved t [] = None"
| "until_resolved t (e # es) =
     (if resolving t e then Some [e] else map_option ((#) e) (until_resolved t es))"

text \<open>The fields that \<^verbatim>\<open>end_trial\<close> derives from a response, and its two result records.\<close>

definition chosen_of :: "trial \<Rightarrow> response \<Rightarrow> string option" where
  "chosen_of t r =
     (if strict_eq (response.key r) (choices_at (choices t) 0) then Some ''left''
      else if strict_eq (response.key r) (choices_at (choices t) 1) then Some ''right''
      else None)"

definition accuracy_of :: "trial \<Rightarrow> response \<Rightarrow> nat option" where
  "accuracy_of t r =
     (if trial.correct_side t \<noteq> None \<and> chosen_of t r \<noteq> None
      then (if chosen_of t r = trial.correct_side t then Some 1 else Some 0)
      else None)"

definition bar_data_of :: "trial \<Rightarrow> stimulus \<Rightarrow> response \<Rightarrow> bar_data" where
  "bar_data_of t st r =
     \<lparr>rt = response.rt r, key = response.key r, prompt = trial.prompt t,
      chosen_side = chosen_of t r, correct_side = trial.correct_side t,
      accuracy = accuracy_of t r,
      final_left = stimulus.final_left st, final_right = stimulus.final_right st,
      left_jitter = stimulus.left_jitter st, right_jitter = stimulus.right_jitter st,
      left_color = trial.left_color t, right_color = trial.right_color t\<rparr>"

definition img_data_of :: "trial \<Rightarrow> stimulus \<Rightarrow> response \<Rightarrow> img_data" where
  "img_data_of t st r =
     \<lparr>rt = response.rt r, key = response.key r, prompt = trial.prompt t,
      chosen_side = chosen_of t r, correct_side = trial.correct_side t,
      accuracy = accuracy_of t r,
      final_left = stimulus.final_left st, final_right = stimulus.final_right st,
      left_jitter = stimulus.left_jitter st, right_jitter = stimulus.right_jitter st,
      left_image = trial.left_image t, right_image = trial.right_image t\<rparr>"

definition cancel_calls :: "listener option \<Rightarrow> 'd host_call list" where
  "cancel_calls kl = (case kl of None \<Rightarrow> [] | Some l \<Rightarrow> [CancelKeyboardResponse l])"

text \<open>The stimulus both plugins compute from the parameters and the four draws.\<close>

definition jitter_of :: "real \<Rightarrow> int \<Rightarrow> int" where
  "jitter_of u J = Math_round (to_double (to_double (to_double (u * 2) - 1) * real_of_int J))"

definition stimulus_of :: "trial \<Rightarrow> draws \<Rightarrow> stimulus" where
  "stimulus_of t d =
     \<lparr>left_height = randomInt (fst (left_height_range t)) (snd (left_height_range t))
                      (draw_left_height d),
      right_height = randomInt (fst (right_height_range t)) (snd (right_height_range t))
                       (draw_right_height d),
      stimulus.left_jitter = jitter_of (draw_left_jitter d) (jitter t),
      stimulus.right_jitter = jitter_of (draw_right_jitter d) (jitter t),
      stimulus.final_left =
        double_add
          (randomInt (fst (left_height_range t)) (snd (left_height_range t))
             (draw_left_height d))
          (jitter_of (draw_left_jitter d) (jitter t)),
      stimulus.final_right =
        double_add
          (randomInt (fst (right_height_range t)) (snd (right_height_range t))
             (draw_right_height d))
          (jitter_of (draw_right_jitter d) (jitter t))\<rparr>"

text \<open>The host calls of a trial's start.\<close>

definition start_calls :: "trial \<Rightarrow> 'd host_call list" where
  "start_calls t =
     (if loose_eq (choices t) ''NO_KEYS'' then [] else [GetKeyboardResponse (choices t)])
     @ (case trial_duration t of None \<Rightarrow> [] | Some ms \<Rightarrow> [SetTimeout ms])"

subsection \<open>Properties of a result record\<close>

text \<open>
  Accuracy scoring: \<^verbatim>\<open>accuracy\<close> is present exactly when \<^verbatim>\<open>correct_side\<close> and
  \<^verbatim>\<open>chosen_side\<close> both are, it is then 0 or 1, and it is 1 exactly when the two agree.
\<close>

definition accuracy_scored :: "'a trial_data_scheme \<Rightarrow> bool" where
  "accuracy_scored r =
     ((accuracy r \<noteq> None) = (trial_data.correct_side r \<noteq> None \<and> chosen_side r \<noteq> None)
      \<and> (accuracy r = None \<or> accuracy r = Some 0 \<or> accuracy r = Some 1)
      \<and> (accuracy r = Some 1) =
          (trial_data.correct_side r \<noteq> None \<and> chosen_side r \<noteq> None
           \<and> chosen_side r = trial_data.correct_side r)
      \<and> (accuracy r = Some 0) =
          (trial_data.correct_side r \<noteq> None \<and> chosen_side r \<noteq> None
           \<and> chosen_side r \<noteq> trial_data.correct_side r))"

text \<open>
  Side mapping: \<^verbatim>\<open>chosen_side\<close> is \<^verbatim>\<open>"left"\<close> exactly when the key equals \<^verbatim>\<open>choices[0]\<close>,
  \<^verbatim>\<open>"right"\<close> exactly when it equals \<^verbatim>\<open>choices[1]\<close> and not \<^verbatim>\<open>choices[0]\<close>, and
  \<^verbatim>\<open>null\<close> exactly when it equals neither.
\<close>

definition side_mapped :: "trial \<Rightarrow> 'a trial_data_scheme \<Rightarrow> bool" where
  "side_mapped t r =
     ((chosen_side r = Some ''left'') = strict_eq (trial_data.key r) (choices_at (choices t) 0)
      \<and> (chosen_side r = Some ''right'') =
          (strict_eq (trial_data.key r) (choices_at (choices t) 1)
           \<and> \<not> strict_eq (trial_data.key r) (choices_at (choices t) 0))
      \<and> (chosen_side r = None) =
          (\<not> strict_eq (trial_data.key r) (choices_at (choices t) 0)
           \<and> \<not> strict_eq (trial_data.key r) (choices_at (choices t) 1)))"





subsection \<open>Concrete trials\<close>

text \<open>
  The defaults that the two plugins declare in \<^verbatim>\<open>info.parameters\<close>, four draws, and the
  variations of the defaults at which the theorems are instantiated below.
\<close>

definition default_trial :: trial where
  "default_trial =
     \<lparr>trial.prompt = None, left_height_range = (50, 150), right_height_range = (50, 150),
      jitter = 5, trial.left_color = ''#3498db'', trial.right_color = ''#e74c3c'',
      trial.left_image = None, trial.right_image = None, bg_color = ''#ffffff'',
      choices = Keys [''f'', ''j''], trial.correct_side = None, trial_duration = None,
      response_ends_trial = True\<rparr>"

definition example_draws :: draws where
  "example_draws =
     \<lparr>draw_left_height = 1 / 4, draw_right_height = 1 / 2,
      draw_left_jitter = 1 / 4, draw_right_jitter = 3 / 4\<rparr>"

definition scored_trial :: trial where
  "scored_trial = default_trial\<lparr>trial.correct_side := Some ''left'', trial_duration := Some 2000\<rparr>"

definition duplicate_keys_trial :: trial where
  "duplicate_keys_trial = default_trial\<lparr>choices := Keys [''f'', ''f'']\<rparr>"

definition timed_trial :: trial where
  "timed_trial = default_trial\<lparr>trial_duration := Some 2000\<rparr>"

definition no_keys_trial :: trial where
  "no_keys_trial = default_trial\<lparr>choices := NO_KEYS, trial_duration := Some 2000\<rparr>"

definition unending_trial :: trial where
  "unending_trial = default_trial\<lparr>response_ends_trial := False\<rparr>"

definition late_trial :: trial where
  "late_trial = default_trial\<lparr>trial_duration := Some 2000, response_ends_trial := False\<rparr>"



definition unresolvable_trial :: trial where
  "unresolvable_trial = default_trial\<lparr>choices := NO_KEYS\<rparr>"




section \<open>The event sequences and the result records\<close>

lemma finished_append: "finished (xs @ ys) = finished xs @ finished ys"
  by (induction xs rule: finished.induct) auto

lemma finished_start_calls: "finished (start_calls t) = []"
  by (simp add: start_calls_def finished_append split: option.splits)

lemma finished_cancel_calls: "finished (cancel_calls kl) = []"
  by (simp add: cancel_calls_def split: option.splits)

lemma first_valid_key_None:
  "response.key (first_valid c evs) = None \<longleftrightarrow>
     (\<forall>k tm. KeyDown k tm \<in> set evs \<longrightarrow> \<not> valid_response c k)"
  by (induction c evs rule: first_valid.induct) auto

lemma first_valid_rt_None:
  "response.key (first_valid c evs) = None \<Longrightarrow>
     first_valid c evs = \<lparr>response.rt = None, response.key = None\<rparr>"
  by (induction c evs rule: first_valid.induct) (auto split: if_splits)

lemma first_valid_snoc_timeout:
  "first_valid c (evs @ [TimeoutElapsed]) = first_valid c evs"
  by (induction c evs rule: first_valid.induct) auto

lemma first_valid_snoc_key:
  "first_valid c (evs @ [KeyDown k tm]) =
     (if response.key (first_valid c evs) = None \<and> valid_response c k
      then \<lparr>response.rt = Some tm, response.key = Some k\<rparr>
      else first_valid c evs)"
  by (induction c evs rule: first_valid.induct) auto

lemma until_resolved_None:
  "until_resolved t evs = None \<longleftrightarrow> (\<forall>e\<in>set evs. \<not> resolving t e)"
  by (induction evs) auto

lemma until_resolved_snoc:
  "until_resolved t (evs @ [e]) =
     (case until_resolved t evs of
        Some pre \<Rightarrow> Some pre
      | None \<Rightarrow> if resolving t e then Some (evs @ [e]) else None)"
  by (induction evs) (auto split: option.splits)

lemma until_resolved_append:
  "until_resolved t evs = Some pre \<Longrightarrow> until_resolved t (evs @ rest) = Some pre"
  by (induction evs arbitrary: pre) (auto split: if_splits)

lemma until_resolved_prefix:
  "until_resolved t evs = Some pre \<Longrightarrow> \<exists>post. evs = pre @ post"
  by (induction evs arbitrary: pre) (auto split: if_splits)

lemma until_resolved_last:
  "until_resolved t evs = Some pre \<Longrightarrow> pre \<noteq> [] \<and> resolving t (last pre)"
  by (induction evs arbitrary: pre) (auto split: if_splits)

lemma until_resolved_butlast:
  "until_resolved t evs = Some pre \<Longrightarrow> \<forall>e\<in>set (butlast pre). \<not> resolving t e"
  by (induction evs arbitrary: pre) (auto split: if_splits)

subsection \<open>\<^verbatim>\<open>bar-choice\<close>\<close>

lemma bar_end_trial_eq:
  "bar_end_trial t st s =
     s\<lparr>innerHTML := Blank, listening := (listening s \<and> keyboardListener s = None),
       timeout_pending := False,
       calls := calls s @ [ClearAllTimeouts] @ cancel_calls (keyboardListener s)
                @ [FinishTrial (bar_data_of t st (response s))]\<rparr>"
proof (cases "keyboardListener s")
  case None
  then show ?thesis
    by (simp add: bar_end_trial_def clearAllTimeouts_def finishTrial_def Let_def
        bar_data_of_def chosen_of_def accuracy_of_def cancel_calls_def strict_eq_def)
next
  case (Some l)
  then show ?thesis
    by (simp add: bar_end_trial_def clearAllTimeouts_def cancelKeyboardResponse_def
        finishTrial_def Let_def bar_data_of_def chosen_of_def accuracy_of_def cancel_calls_def
        strict_eq_def)
qed

lemma bar_stimulus: "fst (BarChoicePlugin_trial t d) = stimulus_of t d"
  by (simp add: BarChoicePlugin_trial_def stimulus_of_def jitter_of_def Let_def)

lemma bar_start:
  "snd (BarChoicePlugin_trial t d) =
     \<lparr>response = \<lparr>response.rt = None, response.key = None\<rparr>,
      keyboardListener = (if loose_eq (choices t) ''NO_KEYS'' then None else Some Listener),
      innerHTML = BarHtml (bg_color t) (case trial.prompt t of None \<Rightarrow> [] | Some p \<Rightarrow> p)
         (stimulus.final_left (stimulus_of t d)) (trial.left_color t)
         (stimulus.final_right (stimulus_of t d)) (trial.right_color t),
      listening = (\<not> loose_eq (choices t) ''NO_KEYS''),
      timeout_pending = (trial_duration t \<noteq> None),
      calls = start_calls t\<rparr>"
  by (simp add: BarChoicePlugin_trial_def Let_def getKeyboardResponse_def setTimeout_def
      stimulus_of_def jitter_of_def start_calls_def split: option.splits)

lemma bar_run_alt:
  "bar_run t d evs =
     foldl (host_dispatch (bar_after_response t (stimulus_of t d))
              (bar_end_trial t (stimulus_of t d)) (choices t))
       (snd (BarChoicePlugin_trial t d)) evs"
  by (simp add: bar_run_def bar_stimulus [symmetric] split: prod.splits)

lemma bar_run_snoc:
  "bar_run t d (evs @ [e]) =
     host_dispatch (bar_after_response t (stimulus_of t d))
       (bar_end_trial t (stimulus_of t d)) (choices t) (bar_run t d evs) e"
  by (simp add: bar_run_alt)

lemma bar_run_state:
  "bar_run t d evs =
     (case until_resolved t evs of
        None \<Rightarrow>
          (snd (BarChoicePlugin_trial t d))
            \<lparr>response := captured t evs,
             listening := (\<not> loose_eq (choices t) ''NO_KEYS''
                           \<and> response.key (captured t evs) = None)\<rparr>
      | Some pre \<Rightarrow>
          bar_end_trial t (stimulus_of t d)
            ((snd (BarChoicePlugin_trial t d))\<lparr>response := captured t pre\<rparr>))"
proof (induction evs rule: rev_induct)
  case Nil
  show ?case by (simp add: bar_run_alt captured_def bar_start)
next
  case (snoc e evs)
  show ?case
  proof (cases "until_resolved t evs")
    case (Some pre)
    then show ?thesis
      using snoc
      by (simp add: bar_run_snoc until_resolved_snoc host_dispatch_def bar_end_trial_eq
          bar_start split: event.splits)
  next
    case None
    show ?thesis
    proof (cases e)
      case TimeoutElapsed
      then show ?thesis
        using snoc None
        by (simp add: bar_run_snoc until_resolved_snoc host_dispatch_def bar_start captured_def
            first_valid_snoc_timeout bar_end_trial_eq)
    next
      case (KeyDown k tm)
      show ?thesis
      proof (cases "loose_eq (choices t) ''NO_KEYS''")
        case True
        then show ?thesis
          using snoc None KeyDown
          by (simp add: bar_run_snoc until_resolved_snoc host_dispatch_def bar_start captured_def)
      next
        case listener: False
        show ?thesis
        proof (cases "response.key (first_valid (choices t) evs) = None
                      \<and> valid_response (choices t) k")
          case True
          then show ?thesis
            using snoc None KeyDown listener
            by (simp add: bar_run_snoc until_resolved_snoc host_dispatch_def bar_start
                captured_def first_valid_snoc_key bar_after_response_def bar_end_trial_eq)
        next
          case False
          have nr: "\<not> resolving t e"
            using KeyDown False None listener
            by (auto simp: until_resolved_None first_valid_key_None)
          show ?thesis
            using snoc None KeyDown False nr listener
            by (simp add: bar_run_snoc until_resolved_snoc host_dispatch_def bar_start
                captured_def first_valid_snoc_key) (auto simp: first_valid_rt_None)
        qed
      qed
    qed
  qed
qed

lemma bar_reported:
  "reported (bar_run t d evs) =
     (case until_resolved t evs of
        None \<Rightarrow> []
      | Some pre \<Rightarrow> [bar_data_of t (stimulus_of t d) (captured t pre)])"
  by (simp add: bar_run_state bar_end_trial_eq bar_start reported_def finished_append
      finished_start_calls finished_cancel_calls split: option.splits)

subsection \<open>\<^verbatim>\<open>bar-image-choice\<close>\<close>

lemma img_end_trial_eq:
  "img_end_trial t st s =
     s\<lparr>innerHTML := Blank, listening := (listening s \<and> keyboardListener s = None),
       timeout_pending := False,
       calls := calls s @ [ClearAllTimeouts] @ cancel_calls (keyboardListener s)
                @ [FinishTrial (img_data_of t st (response s))]\<rparr>"
proof (cases "keyboardListener s")
  case None
  then show ?thesis
    by (simp add: img_end_trial_def clearAllTimeouts_def finishTrial_def Let_def
        img_data_of_def chosen_of_def accuracy_of_def cancel_calls_def strict_eq_def)
next
  case (Some l)
  then show ?thesis
    by (simp add: img_end_trial_def clearAllTimeouts_def cancelKeyboardResponse_def
        finishTrial_def Let_def img_data_of_def chosen_of_def accuracy_of_def cancel_calls_def
        strict_eq_def)
qed

lemma img_stimulus: "fst (BarImageChoicePlugin_trial t d) = stimulus_of t d"
  by (simp add: BarImageChoicePlugin_trial_def stimulus_of_def jitter_of_def Let_def)

lemma img_start:
  "snd (BarImageChoicePlugin_trial t d) =
     \<lparr>response = \<lparr>response.rt = None, response.key = None\<rparr>,
      keyboardListener = (if loose_eq (choices t) ''NO_KEYS'' then None else Some Listener),
      innerHTML = ImageHtml (bg_color t) (case trial.prompt t of None \<Rightarrow> [] | Some p \<Rightarrow> p)
         (trial.left_image t) (stimulus.final_left (stimulus_of t d))
         (trial.right_image t) (stimulus.final_right (stimulus_of t d)),
      listening = (\<not> loose_eq (choices t) ''NO_KEYS''),
      timeout_pending = (trial_duration t \<noteq> None),
      calls = start_calls t\<rparr>"
  by (simp add: BarImageChoicePlugin_trial_def Let_def getKeyboardResponse_def setTimeout_def
      stimulus_of_def jitter_of_def start_calls_def split: option.splits)

lemma img_run_alt:
  "img_run t d evs =
     foldl (host_dispatch (img_after_response t (stimulus_of t d))
              (img_end_trial t (stimulus_of t d)) (choices t))
       (snd (BarImageChoicePlugin_trial t d)) evs"
  by (simp add: img_run_def img_stimulus [symmetric] split: prod.splits)

lemma img_run_snoc:
  "img_run t d (evs @ [e]) =
     host_dispatch (img_after_response t (stimulus_of t d))
       (img_end_trial t (stimulus_of t d)) (choices t) (img_run t d evs) e"
  by (simp add: img_run_alt)

lemma img_run_state:
  "img_run t d evs =
     (case until_resolved t evs of
        None \<Rightarrow>
          (snd (BarImageChoicePlugin_trial t d))
            \<lparr>response := captured t evs,
             listening := (\<not> loose_eq (choices t) ''NO_KEYS''
                           \<and> response.key (captured t evs) = None)\<rparr>
      | Some pre \<Rightarrow>
          img_end_trial t (stimulus_of t d)
            ((snd (BarImageChoicePlugin_trial t d))\<lparr>response := captured t pre\<rparr>))"
proof (induction evs rule: rev_induct)
  case Nil
  show ?case by (simp add: img_run_alt captured_def img_start)
next
  case (snoc e evs)
  show ?case
  proof (cases "until_resolved t evs")
    case (Some pre)
    then show ?thesis
      using snoc
      by (simp add: img_run_snoc until_resolved_snoc host_dispatch_def img_end_trial_eq
          img_start split: event.splits)
  next
    case None
    show ?thesis
    proof (cases e)
      case TimeoutElapsed
      then show ?thesis
        using snoc None
        by (simp add: img_run_snoc until_resolved_snoc host_dispatch_def img_start captured_def
            first_valid_snoc_timeout img_end_trial_eq)
    next
      case (KeyDown k tm)
      show ?thesis
      proof (cases "loose_eq (choices t) ''NO_KEYS''")
        case True
        then show ?thesis
          using snoc None KeyDown
          by (simp add: img_run_snoc until_resolved_snoc host_dispatch_def img_start captured_def)
      next
        case listener: False
        show ?thesis
        proof (cases "response.key (first_valid (choices t) evs) = None
                      \<and> valid_response (choices t) k")
          case True
          then show ?thesis
            using snoc None KeyDown listener
            by (simp add: img_run_snoc until_resolved_snoc host_dispatch_def img_start
                captured_def first_valid_snoc_key img_after_response_def img_end_trial_eq)
        next
          case False
          have nr: "\<not> resolving t e"
            using KeyDown False None listener
            by (auto simp: until_resolved_None first_valid_key_None)
          show ?thesis
            using snoc None KeyDown False nr listener
            by (simp add: img_run_snoc until_resolved_snoc host_dispatch_def img_start
                captured_def first_valid_snoc_key) (auto simp: first_valid_rt_None)
        qed
      qed
    qed
  qed
qed

lemma img_reported:
  "reported (img_run t d evs) =
     (case until_resolved t evs of
        None \<Rightarrow> []
      | Some pre \<Rightarrow> [img_data_of t (stimulus_of t d) (captured t pre)])"
  by (simp add: img_run_state img_end_trial_eq img_start reported_def finished_append
      finished_start_calls finished_cancel_calls split: option.splits)

subsection \<open>Doubles\<close>




















lemma floor_log2_eqI:
  assumes "0 < y" and "2 powi k \<le> y" and "y < 2 powi (k + 1)"
  shows "\<lfloor>log 2 y\<rfloor> = k"
proof -
  have "2 powr real_of_int k \<le> y" and "y < 2 powr real_of_int (k + 1)"
    using assms(2,3) by (simp_all only: powr_real_of_int' [of 2, simplified])
  then have "2 powr real_of_int k \<le> y \<and> y < 2 powr (real_of_int k + 1)" by simp
  with floor_log_eq_powr_iff [OF assms(1), of 2 k] show ?thesis by simp
qed

lemma floor_log2_code:
  assumes "x \<noteq> 0"
  shows "\<lfloor>log 2 \<bar>x\<bar>\<rfloor>
         = (if 1 \<le> \<bar>x\<bar> then bitlen \<lfloor>\<bar>x\<bar>\<rfloor> - 1 else - bitlen (\<lceil>1 / \<bar>x\<bar>\<rceil> - 1))"
proof (cases "1 \<le> \<bar>x\<bar>")
  case True
  define n where "n = \<lfloor>\<bar>x\<bar>\<rfloor>"
  have n: "0 < n" using True by (simp add: n_def)
  have b: "1 \<le> bitlen n" using n by (simp add: bitlen_alt_def)
  note bb = bitlen_bounds [OF n]
  have nx: "real_of_int n \<le> \<bar>x\<bar>" "\<bar>x\<bar> < real_of_int (n + 1)"
    by (simp_all add: n_def)
  have "(2::real) powi (bitlen n - 1) = 2 ^ nat (bitlen n - 1)"
    using b by (simp add: power_int_def)
  also have "\<dots> = real_of_int (2 ^ nat (bitlen n - 1))" by simp
  also have "\<dots> \<le> real_of_int n" using bb by (simp only: of_int_le_iff)
  finally have lo: "2 powi (bitlen n - 1) \<le> \<bar>x\<bar>" using nx(1) by linarith
  have "n + 1 \<le> 2 ^ nat (bitlen n)" using bb by simp
  then have "real_of_int (n + 1) \<le> real_of_int (2 ^ nat (bitlen n))"
    by (simp only: of_int_le_iff)
  also have "\<dots> = 2 powi (bitlen n - 1 + 1)"
    using b by (simp add: power_int_def)
  finally have hi: "\<bar>x\<bar> < 2 powi (bitlen n - 1 + 1)" using nx(2) by linarith
  have "\<lfloor>log 2 \<bar>x\<bar>\<rfloor> = bitlen n - 1"
    using assms lo hi by (intro floor_log2_eqI) simp_all
  with True show ?thesis by (simp add: n_def)
next
  case False
  define y where "y = 1 / \<bar>x\<bar>"
  define m where "m = \<lceil>y\<rceil> - 1"
  have x: "0 < \<bar>x\<bar>" "\<bar>x\<bar> < 1" using assms False by simp_all
  then have y: "1 < y" by (simp add: y_def)
  then have "1 < \<lceil>y\<rceil>" by (simp add: less_ceiling_iff)
  then have m: "0 < m" by (simp add: m_def)
  have b: "1 \<le> bitlen m" using m by (simp add: bitlen_alt_def)
  note bb = bitlen_bounds [OF m]
  have my: "real_of_int m < y" "y \<le> real_of_int (m + 1)"
    by (simp_all add: m_def) linarith
  have "m + 1 \<le> 2 ^ nat (bitlen m)" using bb by simp
  then have "real_of_int (m + 1) \<le> real_of_int (2 ^ nat (bitlen m))"
    by (simp only: of_int_le_iff)
  with my(2) have "y \<le> real_of_int (2 ^ nat (bitlen m))" by linarith
  then have yhi: "y \<le> 2 ^ nat (bitlen m)" by simp
  have "real_of_int (2 ^ nat (bitlen m - 1)) \<le> real_of_int m"
    using bb by (simp only: of_int_le_iff)
  with my(1) have "real_of_int (2 ^ nat (bitlen m - 1)) < y" by linarith
  then have ylo: "2 ^ nat (bitlen m - 1) < y" by simp
  have "(2::real) powi (- bitlen m) = 1 / 2 ^ nat (bitlen m)"
    using b by (simp add: power_int_def field_simps)
  also have "\<dots> \<le> 1 / y"
    using yhi y by (intro divide_left_mono) simp_all
  finally have lo: "2 powi (- bitlen m) \<le> \<bar>x\<bar>" by (simp add: y_def)
  have "1 / y < 1 / 2 ^ nat (bitlen m - 1)"
    using ylo y by (intro divide_strict_left_mono) simp_all
  also have "\<dots> = 2 powi (- bitlen m + 1)"
  proof (cases "bitlen m = 1")
    case True
    then show ?thesis by simp
  next
    case False
    with b have "1 < bitlen m" by simp
    then show ?thesis
      by (simp add: power_int_def field_simps nat_diff_distrib)
  qed
  finally have hi: "\<bar>x\<bar> < 2 powi (- bitlen m + 1)" by (simp add: y_def)
  have "\<lfloor>log 2 \<bar>x\<bar>\<rfloor> = - bitlen m"
    using x(1) lo hi by (intro floor_log2_eqI) simp_all
  with False show ?thesis by (simp add: m_def y_def)
qed

lemma to_double_code [code]:
  "to_double x =
     (if x = 0 then 0
      else let e = (if 1 \<le> \<bar>x\<bar> then bitlen \<lfloor>\<bar>x\<bar>\<rfloor> - 1 else - bitlen (\<lceil>1 / \<bar>x\<bar>\<rceil> - 1));
               q = 2 powi (max e (- 1022) - 52)
           in real_of_int (round_half_even (x / q)) * q)"
  by (simp add: to_double_def ulp_def Let_def floor_log2_code)

text \<open>The definitions to unfold when a trial is run on concrete events.\<close>

lemmas run_defs =
  bar_run_def BarChoicePlugin_trial_def img_run_def BarImageChoicePlugin_trial_def
  host_dispatch_def bar_after_response_def bar_end_trial_def img_after_response_def
  img_end_trial_def getKeyboardResponse_def setTimeout_def clearAllTimeouts_def
  cancelKeyboardResponse_def finishTrial_def reported_def loose_eq_def strict_eq_def
  randomInt_def Math_round_def Let_def

lemma bar_data_of_sel:
  "trial_data.rt (bar_data_of t st r) = response.rt r"
  "trial_data.key (bar_data_of t st r) = response.key r"
  "trial_data.prompt (bar_data_of t st r) = trial.prompt t"
  "chosen_side (bar_data_of t st r) = chosen_of t r"
  "trial_data.correct_side (bar_data_of t st r) = trial.correct_side t"
  "accuracy (bar_data_of t st r) = accuracy_of t r"
  "trial_data.final_left (bar_data_of t st r) = stimulus.final_left st"
  "trial_data.final_right (bar_data_of t st r) = stimulus.final_right st"
  "trial_data.left_jitter (bar_data_of t st r) = stimulus.left_jitter st"
  "trial_data.right_jitter (bar_data_of t st r) = stimulus.right_jitter st"
  "bar_data.left_color (bar_data_of t st r) = trial.left_color t"
  "bar_data.right_color (bar_data_of t st r) = trial.right_color t"
  by (simp_all add: bar_data_of_def)

lemma img_data_of_sel:
  "trial_data.rt (img_data_of t st r) = response.rt r"
  "trial_data.key (img_data_of t st r) = response.key r"
  "trial_data.prompt (img_data_of t st r) = trial.prompt t"
  "chosen_side (img_data_of t st r) = chosen_of t r"
  "trial_data.correct_side (img_data_of t st r) = trial.correct_side t"
  "accuracy (img_data_of t st r) = accuracy_of t r"
  "trial_data.final_left (img_data_of t st r) = stimulus.final_left st"
  "trial_data.final_right (img_data_of t st r) = stimulus.final_right st"
  "trial_data.left_jitter (img_data_of t st r) = stimulus.left_jitter st"
  "trial_data.right_jitter (img_data_of t st r) = stimulus.right_jitter st"
  "img_data.left_image (img_data_of t st r) = trial.left_image t"
  "img_data.right_image (img_data_of t st r) = trial.right_image t"
  by (simp_all add: img_data_of_def)

lemma accuracy_scored_bar: "accuracy_scored (bar_data_of t st r)"
  by (simp add: accuracy_scored_def accuracy_of_def bar_data_of_sel)

lemma accuracy_scored_img: "accuracy_scored (img_data_of t st r)"
  by (simp add: accuracy_scored_def accuracy_of_def img_data_of_sel)

section \<open>The claims\<close>

text \<open>
  C3. In every result record that either plugin reports, \<^verbatim>\<open>accuracy\<close> is defined (0 or 1)
  if and only if \<^verbatim>\<open>correct_side\<close> and \<^verbatim>\<open>chosen_side\<close> are both present; it is then 1 if
  and only if they are equal and 0 otherwise; when either is absent it is \<^verbatim>\<open>null\<close>. The
  reported \<^verbatim>\<open>correct_side\<close> is the parameter's.
\<close>

theorem accuracy_iff_both_sides_present:
  "(\<forall>r\<in>set (reported (bar_run t d evs)).
      accuracy_scored r \<and> trial_data.correct_side r = trial.correct_side t)
   \<and> (\<forall>r\<in>set (reported (img_run t d evs)).
      accuracy_scored r \<and> trial_data.correct_side r = trial.correct_side t)"
  by (cases "until_resolved t evs")
    (simp_all add: bar_reported img_reported accuracy_scored_bar accuracy_scored_img
      bar_data_of_sel img_data_of_sel)

theorem accuracy_iff_both_sides_present_witness:
  "map accuracy (reported (bar_run scored_trial example_draws [KeyDown ''f'' 420, TimeoutElapsed]))
     = [Some 1]
   \<and> accuracy_scored
       (hd (reported (bar_run scored_trial example_draws [KeyDown ''f'' 420, TimeoutElapsed])))
   \<and> map accuracy (reported (img_run scored_trial example_draws [KeyDown ''j'' 420]))
     = [Some 0]
   \<and> accuracy_scored (hd (reported (img_run scored_trial example_draws [KeyDown ''j'' 420])))"
proof -
  have b: "map accuracy
             (reported (bar_run scored_trial example_draws [KeyDown ''f'' 420, TimeoutElapsed]))
           = [Some 1]"
    by (simp add: run_defs scored_trial_def default_trial_def example_draws_def)
  have i: "map accuracy (reported (img_run scored_trial example_draws [KeyDown ''j'' 420]))
           = [Some 0]"
    by (simp add: run_defs scored_trial_def default_trial_def example_draws_def)
  from b have "hd (reported (bar_run scored_trial example_draws
                  [KeyDown ''f'' 420, TimeoutElapsed]))
               \<in> set (reported (bar_run scored_trial example_draws
                  [KeyDown ''f'' 420, TimeoutElapsed]))"
    by (cases "reported (bar_run scored_trial example_draws
                  [KeyDown ''f'' 420, TimeoutElapsed])") simp_all
  moreover from i have "hd (reported (img_run scored_trial example_draws [KeyDown ''j'' 420]))
               \<in> set (reported (img_run scored_trial example_draws [KeyDown ''j'' 420]))"
    by (cases "reported (img_run scored_trial example_draws [KeyDown ''j'' 420])") simp_all
  ultimately show ?thesis
    using b i
      accuracy_iff_both_sides_present
        [of scored_trial example_draws "[KeyDown ''f'' 420, TimeoutElapsed]"]
      accuracy_iff_both_sides_present [of scored_trial example_draws "[KeyDown ''j'' 420]"]
    by blast
qed

lemma side_mapped_bar: "side_mapped t (bar_data_of t st r)"
  by (simp add: side_mapped_def chosen_of_def bar_data_of_sel)

lemma side_mapped_img: "side_mapped t (img_data_of t st r)"
  by (simp add: side_mapped_def chosen_of_def img_data_of_sel)

text \<open>
  C2, as amended. In every result record that either plugin reports, \<^verbatim>\<open>chosen_side\<close> is
  \<^verbatim>\<open>"left"\<close> if and only if the captured key equals \<^verbatim>\<open>choices[0]\<close>; it is \<^verbatim>\<open>"right"\<close> if
  and only if the key equals \<^verbatim>\<open>choices[1]\<close> and does not equal \<^verbatim>\<open>choices[0]\<close>; and it is
  \<^verbatim>\<open>null\<close> otherwise, which covers the case of no captured response.
\<close>

theorem chosen_side_from_key:
  "(\<forall>r\<in>set (reported (bar_run t d evs)). side_mapped t r)
   \<and> (\<forall>r\<in>set (reported (img_run t d evs)). side_mapped t r)"
  by (cases "until_resolved t evs")
    (simp_all add: bar_reported img_reported side_mapped_bar side_mapped_img)

theorem chosen_side_from_key_witness:
  "map chosen_side (reported (bar_run duplicate_keys_trial example_draws [KeyDown ''f'' 420]))
     = [Some ''left'']
   \<and> side_mapped duplicate_keys_trial
       (hd (reported (bar_run duplicate_keys_trial example_draws [KeyDown ''f'' 420])))
   \<and> map chosen_side (reported (img_run timed_trial example_draws [KeyDown ''j'' 420]))
     = [Some ''right'']
   \<and> side_mapped timed_trial
       (hd (reported (img_run timed_trial example_draws [KeyDown ''j'' 420])))"
proof -
  have b: "map chosen_side
             (reported (bar_run duplicate_keys_trial example_draws [KeyDown ''f'' 420]))
           = [Some ''left'']"
    by (simp add: run_defs duplicate_keys_trial_def default_trial_def example_draws_def)
  have i: "map chosen_side (reported (img_run timed_trial example_draws [KeyDown ''j'' 420]))
           = [Some ''right'']"
    by (simp add: run_defs timed_trial_def default_trial_def example_draws_def)
  from b have "hd (reported (bar_run duplicate_keys_trial example_draws [KeyDown ''f'' 420]))
               \<in> set (reported (bar_run duplicate_keys_trial example_draws
                  [KeyDown ''f'' 420]))"
    by (cases "reported (bar_run duplicate_keys_trial example_draws [KeyDown ''f'' 420])")
      simp_all
  moreover from i have "hd (reported (img_run timed_trial example_draws [KeyDown ''j'' 420]))
               \<in> set (reported (img_run timed_trial example_draws [KeyDown ''j'' 420]))"
    by (cases "reported (img_run timed_trial example_draws [KeyDown ''j'' 420])") simp_all
  ultimately show ?thesis
    using b i
      chosen_side_from_key [of duplicate_keys_trial example_draws "[KeyDown ''f'' 420]"]
      chosen_side_from_key [of timed_trial example_draws "[KeyDown ''j'' 420]"]
    by blast
qed

text \<open>
  With \<^verbatim>\<open>choices = ["f", "f"]\<close> and the key \<^verbatim>\<open>"f"\<close>, the key equals \<^verbatim>\<open>choices[1]\<close> and
  \<^verbatim>\<open>chosen_side\<close> is \<^verbatim>\<open>"left"\<close>, not \<^verbatim>\<open>"right"\<close>: the test of \<^verbatim>\<open>choices[0]\<close> comes first.
\<close>

theorem right_iff_second_choice_counterexample:
  "map trial_data.key
     (reported (bar_run duplicate_keys_trial example_draws [KeyDown ''f'' 420])) = [Some ''f'']
   \<and> choices_at (choices duplicate_keys_trial) 1 = Some ''f''
   \<and> map chosen_side
       (reported (bar_run duplicate_keys_trial example_draws [KeyDown ''f'' 420]))
     = [Some ''left'']
   \<and> \<not> ((chosen_side
            (hd (reported (bar_run duplicate_keys_trial example_draws [KeyDown ''f'' 420])))
          = Some ''right'')
        = strict_eq
            (trial_data.key
              (hd (reported (bar_run duplicate_keys_trial example_draws [KeyDown ''f'' 420]))))
            (choices_at (choices duplicate_keys_trial) 1))"
  by (simp add: run_defs duplicate_keys_trial_def default_trial_def example_draws_def)

lemma captured_prefix_null:
  "response.key (captured t (pre @ post)) = None \<Longrightarrow>
     captured t pre = \<lparr>response.rt = None, response.key = None\<rparr>"
  by (auto simp: captured_def first_valid_key_None intro!: first_valid_rt_None)

lemma chosen_of_null:
  "chosen_of t \<lparr>response.rt = None, response.key = None\<rparr> = None"
  by (simp add: chosen_of_def strict_eq_def)

lemma accuracy_of_null:
  "accuracy_of t \<lparr>response.rt = None, response.key = None\<rparr> = None"
  by (simp add: accuracy_of_def chosen_of_def strict_eq_def)

lemma until_resolved_timeout:
  "trial_duration t \<noteq> None \<Longrightarrow> TimeoutElapsed \<in> set evs \<Longrightarrow>
     \<exists>pre post. until_resolved t evs = Some pre \<and> evs = pre @ post"
proof -
  assume "trial_duration t \<noteq> None" "TimeoutElapsed \<in> set evs"
  then have "\<not> (\<forall>e\<in>set evs. \<not> resolving t e)"
    by (auto intro!: bexI [of _ TimeoutElapsed])
  then have "until_resolved t evs \<noteq> None"
    by (simp only: until_resolved_None not_False_eq_True)
  then obtain pre where "until_resolved t evs = Some pre" by blast
  with until_resolved_prefix [of t evs pre] show ?thesis by simp
qed

text \<open>
  C8. When \<^verbatim>\<open>trial_duration\<close> is set, the timeout elapses during the trial and no key
  press of the trial is captured, each plugin reports one result record, whose \<^verbatim>\<open>rt\<close>,
  \<^verbatim>\<open>key\<close>, \<^verbatim>\<open>chosen_side\<close> and \<^verbatim>\<open>accuracy\<close> are all \<^verbatim>\<open>null\<close>.
\<close>

theorem timeout_without_response:
  assumes "trial_duration t = Some ms" and "TimeoutElapsed \<in> set evs"
    and "response.key (captured t evs) = None"
  shows "map trial_data.rt (reported (bar_run t d evs)) = [None]
    \<and> map trial_data.key (reported (bar_run t d evs)) = [None]
    \<and> map chosen_side (reported (bar_run t d evs)) = [None]
    \<and> map accuracy (reported (bar_run t d evs)) = [None]
    \<and> map trial_data.rt (reported (img_run t d evs)) = [None]
    \<and> map trial_data.key (reported (img_run t d evs)) = [None]
    \<and> map chosen_side (reported (img_run t d evs)) = [None]
    \<and> map accuracy (reported (img_run t d evs)) = [None]"
proof -
  from assms(1,2) obtain pre post where pre: "until_resolved t evs = Some pre" "evs = pre @ post"
    using until_resolved_timeout [of t evs] by auto
  with assms(3) have "captured t pre = \<lparr>response.rt = None, response.key = None\<rparr>"
    using captured_prefix_null [of t pre post] by simp
  with pre(1) show ?thesis
    by (simp add: bar_reported img_reported bar_data_of_sel img_data_of_sel chosen_of_null
        accuracy_of_null)
qed

theorem timeout_without_response_witness:
  "trial_duration timed_trial = Some 2000
   \<and> TimeoutElapsed \<in> set [KeyDown ''x'' 300, TimeoutElapsed]
   \<and> response.key (captured timed_trial [KeyDown ''x'' 300, TimeoutElapsed]) = None
   \<and> map trial_data.rt (reported (bar_run timed_trial example_draws
        [KeyDown ''x'' 300, TimeoutElapsed])) = [None]
   \<and> map accuracy (reported (img_run timed_trial example_draws
        [KeyDown ''x'' 300, TimeoutElapsed])) = [None]"
proof -
  have h1: "trial_duration timed_trial = Some 2000"
    by (simp add: timed_trial_def default_trial_def)
  have h2: "TimeoutElapsed \<in> set [KeyDown ''x'' 300, TimeoutElapsed]" by simp
  have h3: "response.key (captured timed_trial [KeyDown ''x'' 300, TimeoutElapsed]) = None"
    by (simp add: captured_def loose_eq_def timed_trial_def default_trial_def)
  from timeout_without_response [OF h1 h2 h3, of example_draws] h1 h2 h3
  show ?thesis by simp
qed

text \<open>
  C10. When \<^verbatim>\<open>choices\<close> is the sentinel \<^verbatim>\<open>"NO_KEYS"\<close> (or anything else that loosely
  equals it) and \<^verbatim>\<open>trial_duration\<close> is set, the start registers no keyboard listener
  (\<^verbatim>\<open>keyboardListener\<close> stays \<^verbatim>\<open>undefined\<close>, the only logged call is \<^verbatim>\<open>setTimeout\<close>), and
  once the timeout has elapsed the logged calls are \<^verbatim>\<open>setTimeout\<close>, \<^verbatim>\<open>clearAllTimeouts\<close>,
  \<^verbatim>\<open>finishTrial\<close>: \<^verbatim>\<open>cancelKeyboardResponse\<close> is skipped, and the one result record has
  \<^verbatim>\<open>null\<close> response fields.
\<close>

theorem no_keys_timeout_finalizes:
  assumes "loose_eq (choices t) ''NO_KEYS''" and "trial_duration t = Some ms"
    and "TimeoutElapsed \<in> set evs"
  shows "keyboardListener (snd (BarChoicePlugin_trial t d)) = None
    \<and> \<not> listening (snd (BarChoicePlugin_trial t d))
    \<and> calls (snd (BarChoicePlugin_trial t d)) = [SetTimeout ms]
    \<and> (\<exists>r. calls (bar_run t d evs) = [SetTimeout ms, ClearAllTimeouts, FinishTrial r]
          \<and> trial_data.rt r = None \<and> trial_data.key r = None
          \<and> chosen_side r = None \<and> accuracy r = None)
    \<and> keyboardListener (snd (BarImageChoicePlugin_trial t d)) = None
    \<and> \<not> listening (snd (BarImageChoicePlugin_trial t d))
    \<and> calls (snd (BarImageChoicePlugin_trial t d)) = [SetTimeout ms]
    \<and> (\<exists>r. calls (img_run t d evs) = [SetTimeout ms, ClearAllTimeouts, FinishTrial r]
          \<and> trial_data.rt r = None \<and> trial_data.key r = None
          \<and> chosen_side r = None \<and> accuracy r = None)"
proof -
  from assms(2,3) obtain pre post where pre: "until_resolved t evs = Some pre" "evs = pre @ post"
    using until_resolved_timeout [of t evs] by auto
  have c: "captured t pre = \<lparr>response.rt = None, response.key = None\<rparr>"
    using assms(1) by (simp add: captured_def)
  show ?thesis
    using assms(1,2) pre(1) c
    by (simp add: bar_run_state img_run_state bar_end_trial_eq img_end_trial_eq bar_start
        img_start start_calls_def cancel_calls_def bar_data_of_sel img_data_of_sel
        chosen_of_null accuracy_of_null)
qed

theorem no_keys_timeout_finalizes_witness:
  "loose_eq (choices no_keys_trial) ''NO_KEYS''
   \<and> trial_duration no_keys_trial = Some 2000
   \<and> TimeoutElapsed \<in> set [KeyDown ''f'' 420, TimeoutElapsed]
   \<and> calls (snd (BarChoicePlugin_trial no_keys_trial example_draws)) = [SetTimeout 2000]
   \<and> map trial_data.key (reported (bar_run no_keys_trial example_draws
        [KeyDown ''f'' 420, TimeoutElapsed])) = [None]
   \<and> length (calls (img_run no_keys_trial example_draws [KeyDown ''f'' 420, TimeoutElapsed]))
      = 3"
proof -
  have h1: "loose_eq (choices no_keys_trial) ''NO_KEYS''"
    by (simp add: loose_eq_def no_keys_trial_def default_trial_def)
  have h2: "trial_duration no_keys_trial = Some 2000"
    by (simp add: no_keys_trial_def default_trial_def)
  have h3: "TimeoutElapsed \<in> set [KeyDown ''f'' 420, TimeoutElapsed]" by simp
  from no_keys_timeout_finalizes [OF h1 h2 h3, of example_draws] h1 h2 h3
  show ?thesis by (auto simp: reported_def)
qed

lemma until_resolved_first:
  "\<forall>e\<in>set evs. \<not> resolving t e \<Longrightarrow> resolving t e \<Longrightarrow>
     until_resolved t (evs @ e # rest) = Some (evs @ [e])"
  by (induction evs) auto

lemma until_resolved_list_ex:
  "until_resolved t evs \<noteq> None \<longleftrightarrow> list_ex (resolving t) evs"
  by (simp add: until_resolved_None list_ex_iff)

lemma bar_run_resolved:
  "until_resolved t evs = Some pre \<Longrightarrow>
     \<not> listening (bar_run t d evs) \<and> \<not> timeout_pending (bar_run t d evs)"
  by (simp add: bar_run_state bar_end_trial_eq bar_start)

lemma img_run_resolved:
  "until_resolved t evs = Some pre \<Longrightarrow>
     \<not> listening (img_run t d evs) \<and> \<not> timeout_pending (img_run t d evs)"
  by (simp add: img_run_state img_end_trial_eq img_start)

text \<open>
  C1, as amended. In every trial of either plugin, whatever events fire, the number of
  result records reported is one if a resolving event has fired (the timeout when
  \<^verbatim>\<open>trial_duration\<close> is set, an accepted key press when \<^verbatim>\<open>response_ends_trial\<close> is true) and
  zero otherwise, so never more than one. Once a resolving event has fired, the listener
  and the timer are both inactive and every later event leaves the whole state unchanged:
  the first resolution cancels the other path and nothing is reported twice.
\<close>

theorem one_result_once_resolved:
  "length (reported (bar_run t d evs)) = (if list_ex (resolving t) evs then 1 else 0)
   \<and> length (reported (img_run t d evs)) = (if list_ex (resolving t) evs then 1 else 0)
   \<and> (list_ex (resolving t) evs \<longrightarrow>
        \<not> listening (bar_run t d evs) \<and> \<not> timeout_pending (bar_run t d evs)
        \<and> \<not> listening (img_run t d evs) \<and> \<not> timeout_pending (img_run t d evs)
        \<and> bar_run t d (evs @ rest) = bar_run t d evs
        \<and> img_run t d (evs @ rest) = img_run t d evs)"
proof (cases "until_resolved t evs")
  case None
  then have "\<not> list_ex (resolving t) evs"
    using until_resolved_list_ex [of t evs] by simp
  with None show ?thesis
    by (simp add: bar_reported img_reported)
next
  case (Some pre)
  then have ex: "list_ex (resolving t) evs"
    using until_resolved_list_ex [of t evs] by simp
  from Some have more: "until_resolved t (evs @ rest) = Some pre"
    by (rule until_resolved_append)
  have "bar_run t d (evs @ rest) = bar_run t d evs"
    by (simp add: bar_run_state [of t d "evs @ rest"] bar_run_state [of t d evs] Some more)
  moreover have "img_run t d (evs @ rest) = img_run t d evs"
    by (simp add: img_run_state [of t d "evs @ rest"] img_run_state [of t d evs] Some more)
  ultimately show ?thesis
    using Some ex bar_run_resolved [OF Some, of d] img_run_resolved [OF Some, of d]
    by (simp add: bar_reported img_reported)
qed

theorem one_result_once_resolved_witness:
  "list_ex (resolving timed_trial) [KeyDown ''f'' 420, TimeoutElapsed]
   \<and> length (reported (bar_run timed_trial example_draws [KeyDown ''f'' 420, TimeoutElapsed])) = 1
   \<and> bar_run timed_trial example_draws ([KeyDown ''f'' 420, TimeoutElapsed] @ [KeyDown ''j'' 500, TimeoutElapsed])
      = bar_run timed_trial example_draws [KeyDown ''f'' 420, TimeoutElapsed]
   \<and> length (reported (img_run timed_trial example_draws [KeyDown ''x'' 100])) = 0"
proof -
  have h: "list_ex (resolving timed_trial) [KeyDown ''f'' 420, TimeoutElapsed]"
    by (simp add: timed_trial_def default_trial_def loose_eq_def)
  have n: "\<not> list_ex (resolving timed_trial) [KeyDown ''x'' 100]"
    by (simp add: timed_trial_def default_trial_def loose_eq_def)
  from h n
    one_result_once_resolved [of timed_trial example_draws "[KeyDown ''f'' 420, TimeoutElapsed]"
      "[KeyDown ''j'' 500, TimeoutElapsed]"]
    one_result_once_resolved [of timed_trial example_draws "[KeyDown ''x'' 100]"]
  show ?thesis by simp
qed

text \<open>
  With \<^verbatim>\<open>response_ends_trial\<close> false and no \<^verbatim>\<open>trial_duration\<close>, the key \<^verbatim>\<open>"f"\<close> is
  captured and no result record is reported: the trial emits none.
\<close>

theorem exactly_one_result_counterexample:
  "response.key (response (bar_run unending_trial example_draws
      [KeyDown ''f'' 420, KeyDown ''j'' 600])) = Some ''f''
   \<and> reported (bar_run unending_trial example_draws [KeyDown ''f'' 420, KeyDown ''j'' 600]) = []
   \<and> length (reported (bar_run unending_trial example_draws
        [KeyDown ''f'' 420, KeyDown ''j'' 600])) \<noteq> 1"
  by (simp add: run_defs unending_trial_def default_trial_def example_draws_def)

lemma bar_after_response_keeps:
  "response.key (response s) \<noteq> None \<Longrightarrow> \<not> response_ends_trial t \<Longrightarrow>
     bar_after_response t st info s = s"
  by (auto simp: bar_after_response_def)

lemma img_after_response_keeps:
  "response.key (response s) \<noteq> None \<Longrightarrow> \<not> response_ends_trial t \<Longrightarrow>
     img_after_response t st info s = s"
  by (auto simp: img_after_response_def)

text \<open>
  C5. With \<^verbatim>\<open>response_ends_trial\<close> false and \<^verbatim>\<open>trial_duration\<close> set, as long as the
  timeout has not elapsed nothing is reported, whatever keys are pressed, and the
  response held is the first accepted key press; when the timeout then elapses, one
  result record is reported, whose \<^verbatim>\<open>rt\<close> and \<^verbatim>\<open>key\<close> are those of that first accepted
  key press. Moreover \<^verbatim>\<open>after_response\<close> itself leaves a recorded response in place: called
  when \<^verbatim>\<open>response.key\<close> is not \<^verbatim>\<open>null\<close>, it changes nothing.
\<close>

theorem response_waits_for_timeout:
  assumes "\<not> response_ends_trial t" and "trial_duration t = Some ms"
    and "TimeoutElapsed \<notin> set evs"
  shows "reported (bar_run t d evs) = []
    \<and> response (bar_run t d evs) = captured t evs
    \<and> map trial_data.rt (reported (bar_run t d (evs @ TimeoutElapsed # rest)))
        = [response.rt (captured t evs)]
    \<and> map trial_data.key (reported (bar_run t d (evs @ TimeoutElapsed # rest)))
        = [response.key (captured t evs)]
    \<and> reported (img_run t d evs) = []
    \<and> response (img_run t d evs) = captured t evs
    \<and> map trial_data.rt (reported (img_run t d (evs @ TimeoutElapsed # rest)))
        = [response.rt (captured t evs)]
    \<and> map trial_data.key (reported (img_run t d (evs @ TimeoutElapsed # rest)))
        = [response.key (captured t evs)]
    \<and> (response.key (response s) \<noteq> None \<longrightarrow> bar_after_response t st info s = s)
    \<and> (response.key (response s') \<noteq> None \<longrightarrow> img_after_response t st info s' = s')"
proof -
  have nr: "\<forall>e\<in>set evs. \<not> resolving t e"
  proof
    fix e assume "e \<in> set evs"
    with assms(1,3) show "\<not> resolving t e" by (cases e) auto
  qed
  then have none: "until_resolved t evs = None"
    by (simp add: until_resolved_None)
  have "resolving t TimeoutElapsed" using assms(2) by simp
  with nr have some: "until_resolved t (evs @ TimeoutElapsed # rest) = Some (evs @ [TimeoutElapsed])"
    by (rule until_resolved_first)
  have cap: "captured t (evs @ [TimeoutElapsed]) = captured t evs"
    by (simp add: captured_def first_valid_snoc_timeout)
  have "response (bar_run t d evs) = captured t evs"
    and "response (img_run t d evs) = captured t evs"
    using none by (simp_all add: bar_run_state [of t d evs] img_run_state [of t d evs])
  then show ?thesis
    using assms(1) none some cap
    by (simp add: bar_reported img_reported bar_after_response_keeps img_after_response_keeps
        bar_data_of_sel img_data_of_sel)
qed

theorem response_waits_for_timeout_witness:
  "\<not> response_ends_trial late_trial
   \<and> trial_duration late_trial = Some 2000
   \<and> TimeoutElapsed \<notin> set [KeyDown ''j'' 420, KeyDown ''f'' 600]
   \<and> reported (bar_run late_trial example_draws [KeyDown ''j'' 420, KeyDown ''f'' 600]) = []
   \<and> map trial_data.key (reported (bar_run late_trial example_draws
        ([KeyDown ''j'' 420, KeyDown ''f'' 600] @ TimeoutElapsed # []))) = [Some ''j'']
   \<and> map trial_data.rt (reported (img_run late_trial example_draws
        ([KeyDown ''j'' 420, KeyDown ''f'' 600] @ TimeoutElapsed # []))) = [Some 420]
   \<and> response.key (response (bar_run late_trial example_draws [KeyDown ''j'' 420])) \<noteq> None
   \<and> bar_after_response late_trial (stimulus_of late_trial example_draws)
        \<lparr>response.rt = Some 600, response.key = Some ''f''\<rparr>
        (bar_run late_trial example_draws [KeyDown ''j'' 420])
      = bar_run late_trial example_draws [KeyDown ''j'' 420]
   \<and> response.key (response (img_run late_trial example_draws [KeyDown ''j'' 420])) \<noteq> None
   \<and> img_after_response late_trial (stimulus_of late_trial example_draws)
        \<lparr>response.rt = Some 600, response.key = Some ''f''\<rparr>
        (img_run late_trial example_draws [KeyDown ''j'' 420])
      = img_run late_trial example_draws [KeyDown ''j'' 420]"
proof -
  have h1: "\<not> response_ends_trial late_trial"
    by (simp add: late_trial_def default_trial_def)
  have h2: "trial_duration late_trial = Some 2000"
    by (simp add: late_trial_def default_trial_def)
  have h3: "TimeoutElapsed \<notin> set [KeyDown ''j'' 420, KeyDown ''f'' 600]" by simp
  have c: "captured late_trial [KeyDown ''j'' 420, KeyDown ''f'' 600]
           = \<lparr>response.rt = Some 420, response.key = Some ''j''\<rparr>"
    by (simp add: captured_def loose_eq_def late_trial_def default_trial_def)
  have kb: "response.key (response (bar_run late_trial example_draws [KeyDown ''j'' 420]))
            \<noteq> None"
    by (simp add: run_defs late_trial_def default_trial_def example_draws_def)
  have ki: "response.key (response (img_run late_trial example_draws [KeyDown ''j'' 420]))
            \<noteq> None"
    by (simp add: run_defs late_trial_def default_trial_def example_draws_def)
  from response_waits_for_timeout
         [where d = example_draws and rest = "[]"
            and s = "bar_run late_trial example_draws [KeyDown ''j'' 420]"
            and s' = "img_run late_trial example_draws [KeyDown ''j'' 420]"
            and st = "stimulus_of late_trial example_draws"
            and info = "\<lparr>response.rt = Some 600, response.key = Some ''f''\<rparr>",
          OF h1 h2 h3]
    h1 h2 h3 c kb ki
  show ?thesis by simp
qed











text \<open>
  C9. Given the same parameters, the same draws and the same events, the two plugins
  report result records that agree in \<^verbatim>\<open>rt\<close>, \<^verbatim>\<open>key\<close>, \<^verbatim>\<open>prompt\<close>, \<^verbatim>\<open>chosen_side\<close>,
  \<^verbatim>\<open>correct_side\<close>, \<^verbatim>\<open>accuracy\<close>, \<^verbatim>\<open>final_left\<close>, \<^verbatim>\<open>final_right\<close>, \<^verbatim>\<open>left_jitter\<close> and
  \<^verbatim>\<open>right_jitter\<close> (and are equally many); they differ in the echoed rendering
  parameters, the colours in one and the images in the other. The stimulus computed at
  the start and the response, listener and timer state after the events agree as well.
\<close>

theorem variants_report_same_core:
  "map trial_data.rt (reported (bar_run t d evs))
     = map trial_data.rt (reported (img_run t d evs))
   \<and> map trial_data.key (reported (bar_run t d evs))
     = map trial_data.key (reported (img_run t d evs))
   \<and> map trial_data.prompt (reported (bar_run t d evs))
     = map trial_data.prompt (reported (img_run t d evs))
   \<and> map chosen_side (reported (bar_run t d evs))
     = map chosen_side (reported (img_run t d evs))
   \<and> map trial_data.correct_side (reported (bar_run t d evs))
     = map trial_data.correct_side (reported (img_run t d evs))
   \<and> map accuracy (reported (bar_run t d evs)) = map accuracy (reported (img_run t d evs))
   \<and> map trial_data.final_left (reported (bar_run t d evs))
     = map trial_data.final_left (reported (img_run t d evs))
   \<and> map trial_data.final_right (reported (bar_run t d evs))
     = map trial_data.final_right (reported (img_run t d evs))
   \<and> map trial_data.left_jitter (reported (bar_run t d evs))
     = map trial_data.left_jitter (reported (img_run t d evs))
   \<and> map trial_data.right_jitter (reported (bar_run t d evs))
     = map trial_data.right_jitter (reported (img_run t d evs))
   \<and> map bar_data.left_color (reported (bar_run t d evs))
     = replicate (length (reported (bar_run t d evs))) (trial.left_color t)
   \<and> map bar_data.right_color (reported (bar_run t d evs))
     = replicate (length (reported (bar_run t d evs))) (trial.right_color t)
   \<and> map img_data.left_image (reported (img_run t d evs))
     = replicate (length (reported (img_run t d evs))) (trial.left_image t)
   \<and> map img_data.right_image (reported (img_run t d evs))
     = replicate (length (reported (img_run t d evs))) (trial.right_image t)
   \<and> fst (BarChoicePlugin_trial t d) = fst (BarImageChoicePlugin_trial t d)
   \<and> response (bar_run t d evs) = response (img_run t d evs)
   \<and> keyboardListener (bar_run t d evs) = keyboardListener (img_run t d evs)
   \<and> listening (bar_run t d evs) = listening (img_run t d evs)
   \<and> timeout_pending (bar_run t d evs) = timeout_pending (img_run t d evs)"
proof -
  have st: "fst (BarChoicePlugin_trial t d) = fst (BarImageChoicePlugin_trial t d)"
    by (simp add: bar_stimulus img_stimulus)
  have state: "response (bar_run t d evs) = response (img_run t d evs)
      \<and> keyboardListener (bar_run t d evs) = keyboardListener (img_run t d evs)
      \<and> listening (bar_run t d evs) = listening (img_run t d evs)
      \<and> timeout_pending (bar_run t d evs) = timeout_pending (img_run t d evs)"
    by (cases "until_resolved t evs")
      (simp_all add: bar_run_state img_run_state bar_end_trial_eq img_end_trial_eq bar_start
        img_start)
  have rep: "reported (bar_run t d evs) = [] \<and> reported (img_run t d evs) = []
      \<or> (\<exists>r. reported (bar_run t d evs) = [bar_data_of t (stimulus_of t d) r]
              \<and> reported (img_run t d evs) = [img_data_of t (stimulus_of t d) r])"
    by (cases "until_resolved t evs") (auto simp: bar_reported img_reported)
  from rep have "map trial_data.rt (reported (bar_run t d evs))
       = map trial_data.rt (reported (img_run t d evs))
     \<and> map trial_data.key (reported (bar_run t d evs))
       = map trial_data.key (reported (img_run t d evs))
     \<and> map trial_data.prompt (reported (bar_run t d evs))
       = map trial_data.prompt (reported (img_run t d evs))
     \<and> map chosen_side (reported (bar_run t d evs))
       = map chosen_side (reported (img_run t d evs))
     \<and> map trial_data.correct_side (reported (bar_run t d evs))
       = map trial_data.correct_side (reported (img_run t d evs))
     \<and> map accuracy (reported (bar_run t d evs)) = map accuracy (reported (img_run t d evs))
     \<and> map trial_data.final_left (reported (bar_run t d evs))
       = map trial_data.final_left (reported (img_run t d evs))
     \<and> map trial_data.final_right (reported (bar_run t d evs))
       = map trial_data.final_right (reported (img_run t d evs))
     \<and> map trial_data.left_jitter (reported (bar_run t d evs))
       = map trial_data.left_jitter (reported (img_run t d evs))
     \<and> map trial_data.right_jitter (reported (bar_run t d evs))
       = map trial_data.right_jitter (reported (img_run t d evs))
     \<and> map bar_data.left_color (reported (bar_run t d evs))
       = replicate (length (reported (bar_run t d evs))) (trial.left_color t)
     \<and> map bar_data.right_color (reported (bar_run t d evs))
       = replicate (length (reported (bar_run t d evs))) (trial.right_color t)
     \<and> map img_data.left_image (reported (img_run t d evs))
       = replicate (length (reported (img_run t d evs))) (trial.left_image t)
     \<and> map img_data.right_image (reported (img_run t d evs))
       = replicate (length (reported (img_run t d evs))) (trial.right_image t)"
    by (elim disjE exE conjE) (simp_all add: bar_data_of_sel img_data_of_sel)
  with st state show ?thesis by blast
qed





text \<open>
  C7, as amended. When \<^verbatim>\<open>choices\<close> is the sentinel \<^verbatim>\<open>"NO_KEYS"\<close> (or loosely equals it) and
  \<^verbatim>\<open>trial_duration\<close> is \<^verbatim>\<open>null\<close>, either plugin starts the trial without flagging it: the
  stimulus is displayed, no keyboard listener is registered and no timeout is set (the
  log of listener, timer and \<^verbatim>\<open>finishTrial\<close> calls is empty), and the trial never resolves:
  no event changes its state and no result record is reported.
\<close>

theorem unresolvable_trial_starts_silently:
  assumes "loose_eq (choices t) ''NO_KEYS''" and "trial_duration t = None"
  shows "calls (snd (BarChoicePlugin_trial t d)) = []
    \<and> innerHTML (snd (BarChoicePlugin_trial t d)) \<noteq> Blank
    \<and> bar_run t d evs = snd (BarChoicePlugin_trial t d)
    \<and> reported (bar_run t d evs) = []
    \<and> calls (snd (BarImageChoicePlugin_trial t d)) = []
    \<and> innerHTML (snd (BarImageChoicePlugin_trial t d)) \<noteq> Blank
    \<and> img_run t d evs = snd (BarImageChoicePlugin_trial t d)
    \<and> reported (img_run t d evs) = []"
proof -
  have "\<forall>e\<in>set evs. \<not> resolving t e"
  proof
    fix e show "\<not> resolving t e" using assms by (cases e) simp_all
  qed
  then have none: "until_resolved t evs = None"
    by (simp add: until_resolved_None)
  have "bar_run t d evs = snd (BarChoicePlugin_trial t d)"
    and "img_run t d evs = snd (BarImageChoicePlugin_trial t d)"
    using assms none
    by (simp_all add: bar_run_state img_run_state bar_start img_start captured_def)
  moreover have "reported (bar_run t d evs) = []" and "reported (img_run t d evs) = []"
    using none by (simp_all add: bar_reported img_reported)
  moreover have "calls (snd (BarChoicePlugin_trial t d)) = []"
    and "calls (snd (BarImageChoicePlugin_trial t d)) = []"
    and "innerHTML (snd (BarChoicePlugin_trial t d)) \<noteq> Blank"
    and "innerHTML (snd (BarImageChoicePlugin_trial t d)) \<noteq> Blank"
    using assms by (simp_all add: bar_start img_start start_calls_def)
  ultimately show ?thesis by blast
qed

theorem unresolvable_trial_starts_silently_witness:
  "loose_eq (choices unresolvable_trial) ''NO_KEYS''
   \<and> trial_duration unresolvable_trial = None
   \<and> calls (snd (BarChoicePlugin_trial unresolvable_trial example_draws)) = []
   \<and> reported (img_run unresolvable_trial example_draws [KeyDown ''f'' 420, TimeoutElapsed]) = []"
proof -
  have h1: "loose_eq (choices unresolvable_trial) ''NO_KEYS''"
    by (simp add: loose_eq_def unresolvable_trial_def default_trial_def)
  have h2: "trial_duration unresolvable_trial = None"
    by (simp add: unresolvable_trial_def default_trial_def)
  from unresolvable_trial_starts_silently
         [OF h1 h2, of example_draws "[KeyDown ''f'' 420, TimeoutElapsed]"] h1 h2
  show ?thesis by blast
qed

text \<open>
  With \<^verbatim>\<open>choices = "NO_KEYS"\<close> and no \<^verbatim>\<open>trial_duration\<close>, the start displays the stimulus,
  registers no listener and sets no timeout, and a key press and a timeout event leave
  that state as it is: nothing is reported.
\<close>

theorem unresolvable_flagged_counterexample:
  "choices unresolvable_trial = NO_KEYS
   \<and> trial_duration unresolvable_trial = None
   \<and> calls (snd (BarChoicePlugin_trial unresolvable_trial example_draws)) = []
   \<and> \<not> listening (snd (BarChoicePlugin_trial unresolvable_trial example_draws))
   \<and> \<not> timeout_pending (snd (BarChoicePlugin_trial unresolvable_trial example_draws))
   \<and> innerHTML (snd (BarChoicePlugin_trial unresolvable_trial example_draws)) \<noteq> Blank
   \<and> bar_run unresolvable_trial example_draws [KeyDown ''f'' 420, TimeoutElapsed]
      = snd (BarChoicePlugin_trial unresolvable_trial example_draws)
   \<and> reported (bar_run unresolvable_trial example_draws [KeyDown ''f'' 420, TimeoutElapsed])
      = []"
  by (simp add: run_defs unresolvable_trial_def default_trial_def example_draws_def)

end
